theory Spec2Isabelle
  imports Complex_Main "HOL-Library.Sublist"
begin

section \<open>JavaScript values read by the callbacks\<close>

text \<open>
  The callbacks of \<^verbatim>\<open>dashExtensions_default.js\<close> read feature properties and the
  entries of \<^verbatim>\<open>classes\<close>, which are JSON scalars. A Number is an IEEE binary64 value:
  not-a-number, an infinity, or a finite value, kept here as the exact rational it denotes
  (the two zeros are one value: no operation of the callbacks tells them apart).
  Strings are sequences of code units below 256.
\<close>

datatype jsnum = NaN | PosInf | NegInf | Fin rat

datatype scalar = Undefined | Null | Bool bool | Num jsnum | Str string

datatype error = TypeError

subsection \<open>Rounding to binary64\<close>

function ilen :: "int \<Rightarrow> int \<Rightarrow> int" where
  \<comment> \<open>the number of digits of \<open>n\<close> in base \<open>b\<close>\<close>
  "ilen b n = (if 0 < n \<and> 1 < b then ilen b (n div b) + 1 else 0)"
  by pat_completeness auto
termination
proof (relation "measure (\<lambda>(b, n). nat n)")
  show "wf (measure (\<lambda>(b, n). nat n))" by simp
next
  fix b n :: int
  assume "0 < n \<and> 1 < b"
  then have "n div b < n" by (simp add: int_div_less_self)
  then show "((b, n div b), (b, n)) \<in> measure (\<lambda>(b, n). nat n)"
    using \<open>0 < n \<and> 1 < b\<close> by simp
qed

declare ilen.simps [simp del]

definition ilog :: "int \<Rightarrow> rat \<Rightarrow> int" where
  \<comment> \<open>for \<open>0 < q\<close> and \<open>1 < b\<close>: the integer \<open>e\<close> with \<open>b ^ e \<le> q < b ^ (e + 1)\<close>\<close>
  "ilog b q =
     (let (n, d) = quotient_of q;
          e = ilen b n - ilen b d
      in if of_int b powi e \<le> q then e else e - 1)"

definition round_half_even :: "rat \<Rightarrow> int" where
  "round_half_even x =
     (let f = \<lfloor>x\<rfloor>; r = x - of_int f
      in if r < 1 / 2 then f else if 1 / 2 < r then f + 1 else if even f then f else f + 1)"

definition round_double :: "rat \<Rightarrow> jsnum" where
  \<comment> \<open>round to nearest, ties to even; 53 bits of precision, exponents from -1022 to 1023\<close>
  "round_double q =
     (if q = 0 then Fin 0
      else let a = \<bar>q\<bar>;
               e = max (ilog 2 a) (- 1022);
               u = 2 powi (e - 52);
               m = round_half_even (a / u);
               v = of_int m * u
           in if 1023 < e \<or> (e = 1023 \<and> m = 2 ^ 53) then (if q < 0 then NegInf else PosInf)
              else Fin (if q < 0 then - v else v))"

fun js_mul :: "jsnum \<Rightarrow> jsnum \<Rightarrow> jsnum" where
  \<comment> \<open>the operator \<^verbatim>\<open>*\<close> on Numbers\<close>
  "js_mul (Fin a) (Fin b) = round_double (a * b)"
| "js_mul NaN _ = NaN"
| "js_mul _ NaN = NaN"
| "js_mul (Fin a) PosInf = (if a = 0 then NaN else if 0 < a then PosInf else NegInf)"
| "js_mul (Fin a) NegInf = (if a = 0 then NaN else if 0 < a then NegInf else PosInf)"
| "js_mul PosInf (Fin b) = (if b = 0 then NaN else if 0 < b then PosInf else NegInf)"
| "js_mul NegInf (Fin b) = (if b = 0 then NaN else if 0 < b then NegInf else PosInf)"
| "js_mul PosInf PosInf = PosInf"
| "js_mul NegInf NegInf = PosInf"
| "js_mul PosInf NegInf = NegInf"
| "js_mul NegInf PosInf = NegInf"

subsection \<open>Numbers to strings\<close>

definition digit_char :: "int \<Rightarrow> char" where
  "digit_char d = ''0123456789'' ! nat (d mod 10)"

function digits10 :: "int \<Rightarrow> string" where
  \<comment> \<open>the decimal digits of \<open>n\<close>, \<open>0 \<le> n\<close>\<close>
  "digits10 n = (if n < 10 then [digit_char n] else digits10 (n div 10) @ [digit_char n])"
  by pat_completeness auto
termination
  by (relation "measure nat") auto

declare digits10.simps [simp del]

definition shortest_ok :: "rat \<Rightarrow> int \<Rightarrow> nat \<Rightarrow> int \<Rightarrow> bool" where
  \<comment> \<open>the \<open>k\<close>-digit decimal \<open>s * 10 ^ (n - k)\<close> denotes the Number \<open>x\<close>\<close>
  "shortest_ok x n k s =
     (10 ^ (k - 1) \<le> s \<and> s < 10 ^ k \<and> round_double (of_int s * 10 powi (n - int k)) = Fin x)"

fun shortest_digits :: "nat \<Rightarrow> rat \<Rightarrow> int \<Rightarrow> nat \<Rightarrow> int \<times> nat \<times> int" where
  \<comment> \<open>Number::toString, step 5: the least \<open>k\<close> and \<open>n\<close>, \<open>s\<close> with
      \<open>10 ^ (k - 1) \<le> s < 10 ^ k\<close> whose decimal \<open>s * 10 ^ (n - k)\<close> rounds to \<open>x\<close>;
      of two such \<open>s\<close> the one closer to \<open>x\<close>, the even one on a tie\<close>
  "shortest_digits 0 x n0 k = (n0, k, \<lfloor>x / 10 powi (n0 - int k)\<rfloor>)"
| "shortest_digits (Suc fuel) x n0 k =
     (let p = 10 powi (n0 - int k);
          lo = \<lfloor>x / p\<rfloor>;
          hi = lo + 1;
          ok_lo = shortest_ok x n0 k lo;
          ok_hi = shortest_ok x n0 k hi;
          d_lo = x - of_int lo * p;
          d_hi = of_int hi * p - x
      in if hi = 10 ^ k \<and> shortest_ok x (n0 + 1) k (10 ^ (k - 1))
            \<and> (\<not> ok_lo \<or> d_hi < d_lo) then (n0 + 1, k, 10 ^ (k - 1))
         else if ok_lo \<and> ok_hi then
           (if d_lo < d_hi \<or> (d_lo = d_hi \<and> even lo) then (n0, k, lo) else (n0, k, hi))
         else if ok_lo then (n0, k, lo)
         else if ok_hi then (n0, k, hi)
         else shortest_digits fuel x n0 (Suc k))"

definition number_to_string_pos :: "rat \<Rightarrow> string" where
  \<comment> \<open>Number::toString, radix 10, steps 5 to 12, for \<open>0 < x\<close>\<close>
  "number_to_string_pos x =
     (let (n, k, s) = shortest_digits 17 x (ilog 10 x + 1) 1;
          ds = digits10 s
      in if - 5 \<le> n \<and> n \<le> 21 then
           (if int k \<le> n then ds @ replicate (nat (n - int k)) CHR ''0''
            else if 0 < n then take (nat n) ds @ ''.'' @ drop (nat n) ds
            else ''0.'' @ replicate (nat (- n)) CHR ''0'' @ ds)
         else
           (let e = n - 1;
                es = (if e < 0 then ''-'' else ''+'') @ digits10 \<bar>e\<bar>
            in if k = 1 then ds @ ''e'' @ es
               else take 1 ds @ ''.'' @ drop 1 ds @ ''e'' @ es))"

fun number_to_string :: "jsnum \<Rightarrow> string" where
  "number_to_string NaN = ''NaN''"
| "number_to_string PosInf = ''Infinity''"
| "number_to_string NegInf = ''-Infinity''"
| "number_to_string (Fin x) =
     (if x = 0 then ''0''
      else if x < 0 then ''-'' @ number_to_string_pos (- x)
      else number_to_string_pos x)"

definition toFixed :: "jsnum \<Rightarrow> nat \<Rightarrow> string" where
  \<comment> \<open>Number.prototype.toFixed(f) for \<open>0 \<le> f \<le> 100\<close>\<close>
  "toFixed x f =
     (case x of
        Fin q \<Rightarrow>
          (let s = (if q < 0 then ''-'' else []);
               a = \<bar>q\<bar>
           in if 10 ^ 21 \<le> a then s @ number_to_string (Fin a)
              else
                (let n = \<lfloor>a * 10 ^ f + 1 / 2\<rfloor>;
                     m = (if n = 0 then ''0'' else digits10 n)
                 in if f \<noteq> 0 then
                      (let k = length m;
                           m' = (if k \<le> f then replicate (f + 1 - k) CHR ''0'' @ m else m);
                           k' = (if k \<le> f then f + 1 else k)
                       in s @ take (k' - f) m' @ ''.'' @ drop (k' - f) m')
                    else s @ m))
      | _ \<Rightarrow> number_to_string x)"

subsection \<open>Strings to numbers\<close>

definition is_ws :: "char \<Rightarrow> bool" where
  \<comment> \<open>StrWhiteSpaceChar among the code units below 256\<close>
  "is_ws c = ((of_char c :: int) \<in> set [9, 10, 11, 12, 13, 32, 160])"

definition trim :: "string \<Rightarrow> string" where
  "trim s = rev (dropWhile is_ws (rev (dropWhile is_ws s)))"

definition digit_val :: "char \<Rightarrow> int option" where
  "digit_val c =
     (let n = (of_char c :: int)
      in if 48 \<le> n \<and> n \<le> 57 then Some (n - 48)
         else if 97 \<le> n \<and> n \<le> 102 then Some (n - 87)
         else if 65 \<le> n \<and> n \<le> 70 then Some (n - 55)
         else None)"

definition is_digit_in :: "int \<Rightarrow> char \<Rightarrow> bool" where
  "is_digit_in b c = (case digit_val c of Some d \<Rightarrow> d < b | None \<Rightarrow> False)"

definition digits_value :: "int \<Rightarrow> string \<Rightarrow> int" where
  "digits_value b cs =
     foldl (\<lambda>acc c. acc * b + (case digit_val c of Some d \<Rightarrow> d | None \<Rightarrow> 0)) 0 cs"

definition radix_of :: "string \<Rightarrow> int option" where
  \<comment> \<open>the radix announced by the prefix of a NonDecimalIntegerLiteral\<close>
  "radix_of t =
     (case t of
        c0 # c1 # ds \<Rightarrow>
          if c0 \<noteq> CHR ''0'' then None
          else if c1 = CHR ''b'' \<or> c1 = CHR ''B'' then Some 2
          else if c1 = CHR ''o'' \<or> c1 = CHR ''O'' then Some 8
          else if c1 = CHR ''x'' \<or> c1 = CHR ''X'' then Some 16
          else None
      | _ \<Rightarrow> None)"

definition parse_exponent :: "string \<Rightarrow> int option" where
  \<comment> \<open>an optional ExponentPart that ends the literal\<close>
  "parse_exponent r =
     (case r of
        [] \<Rightarrow> Some 0
      | c # r' \<Rightarrow>
          if c = CHR ''e'' \<or> c = CHR ''E'' then
            (let neg = (case r' of d # _ \<Rightarrow> d = CHR ''-'' | [] \<Rightarrow> False);
                 ds = (case r' of d # ds' \<Rightarrow> if d = CHR ''+'' \<or> d = CHR ''-'' then ds' else r'
                       | [] \<Rightarrow> [])
             in if ds \<noteq> [] \<and> list_all (is_digit_in 10) ds
                then Some (if neg then - digits_value 10 ds else digits_value 10 ds)
                else None)
          else None)"

definition parse_unsigned :: "string \<Rightarrow> rat option" where
  \<comment> \<open>the mathematical value of a StrUnsignedDecimalLiteral other than Infinity\<close>
  "parse_unsigned t =
     (let ip = takeWhile (is_digit_in 10) t;
          r1 = dropWhile (is_digit_in 10) t;
          dot = (case r1 of c # _ \<Rightarrow> c = CHR ''.'' | [] \<Rightarrow> False);
          fp = (if dot then takeWhile (is_digit_in 10) (tl r1) else []);
          r2 = (if dot then dropWhile (is_digit_in 10) (tl r1) else r1)
      in if ip = [] \<and> fp = [] then None
         else case parse_exponent r2 of
                None \<Rightarrow> None
              | Some ex \<Rightarrow>
                  Some (of_int (digits_value 10 (ip @ fp)) * 10 powi (ex - int (length fp))))"

definition string_to_number :: "string \<Rightarrow> jsnum" where
  \<comment> \<open>StringToNumber\<close>
  "string_to_number s =
     (let t = trim s
      in if t = [] then Fin 0
         else case radix_of t of
                Some b \<Rightarrow>
                  (let ds = drop 2 t
                   in if ds \<noteq> [] \<and> list_all (is_digit_in b) ds
                      then round_double (of_int (digits_value b ds)) else NaN)
              | None \<Rightarrow>
                  (let neg = (hd t = CHR ''-'');
                       u = (if hd t = CHR ''+'' \<or> hd t = CHR ''-'' then tl t else t)
                   in if u = ''Infinity'' then (if neg then NegInf else PosInf)
                      else case parse_unsigned u of
                             None \<Rightarrow> NaN
                           | Some mv \<Rightarrow> round_double (if neg then - mv else mv)))"

subsection \<open>Conversions and loose equality\<close>

fun to_number :: "scalar \<Rightarrow> jsnum" where
  "to_number Undefined = NaN"
| "to_number Null = Fin 0"
| "to_number (Bool b) = Fin (if b then 1 else 0)"
| "to_number (Num n) = n"
| "to_number (Str s) = string_to_number s"

fun to_string :: "scalar \<Rightarrow> string" where
  "to_string Undefined = ''undefined''"
| "to_string Null = ''null''"
| "to_string (Bool b) = (if b then ''true'' else ''false'')"
| "to_string (Num n) = number_to_string n"
| "to_string (Str s) = s"



section \<open>Objects, the store and the callback arguments\<close>

text \<open>
  The callbacks write to objects that their caller owns (\<^verbatim>\<open>style\<close>,
  \<^verbatim>\<open>circleOptions\<close>), reached through references held in \<^verbatim>\<open>context.hideout\<close>.
  The store maps every address to the own data properties of the object there. The
  objects are plain objects: a property read that finds no own property goes on to
  \<^verbatim>\<open>Object.prototype\<close>, and reads as \<^verbatim>\<open>undefined\<close> only when the name is not there
  either. Arrays are only read by index and length, so they are lists, and an index past
  the end reads as \<^verbatim>\<open>undefined\<close>.
\<close>

datatype color = RGB rat rat rat | InvalidColor

datatype jsval =
    Prim scalar
  | ColorVal color
  | Inherited string  \<comment> \<open>what \<^verbatim>\<open>Object.prototype\<close> holds under this name\<close>

type_synonym obj = "string \<rightharpoonup> jsval"

type_synonym addr = nat

type_synonym heap = "addr \<Rightarrow> obj"

definition object_prototype_names :: "string list" where
  \<comment> \<open>the property names of \<^verbatim>\<open>Object.prototype\<close>\<close>
  "object_prototype_names =
     [''constructor'', ''hasOwnProperty'', ''isPrototypeOf'', ''propertyIsEnumerable'',
      ''toLocaleString'', ''toString'', ''valueOf'', ''__proto__'', ''__defineGetter__'',
      ''__defineSetter__'', ''__lookupGetter__'', ''__lookupSetter__'']"

definition get_member :: "obj \<Rightarrow> string \<Rightarrow> jsval" where
  \<comment> \<open>the read \<^verbatim>\<open>ob[k]\<close>: the own property, else the inherited one, else
      \<^verbatim>\<open>undefined\<close>\<close>
  "get_member ob k =
     (case ob k of
        Some v \<Rightarrow> v
      | None \<Rightarrow> if k \<in> set object_prototype_names then Inherited k else Prim Undefined)"


definition set_prop :: "heap \<Rightarrow> addr \<Rightarrow> string \<Rightarrow> jsval \<Rightarrow> heap" where
  "set_prop h a k v = h(a := (h a)(k \<mapsto> v))"


record feature =
  properties :: "string \<rightharpoonup> scalar"

definition read_property :: "feature \<Rightarrow> string \<Rightarrow> scalar" where
  \<comment> \<open>\<^verbatim>\<open>feature.properties[key]\<close>, for a key that names a data property: the fixed
      names of the tooltips, and a \<^verbatim>\<open>colorProp\<close> that is not a name inherited from
      \<^verbatim>\<open>Object.prototype\<close>\<close>
  "read_property f k = (case properties f k of Some v \<Rightarrow> v | None \<Rightarrow> Undefined)"

record 'c hideout =
  classes :: "scalar list"
  colorscale :: "'c list"
  style :: addr
  colorProp :: string
  circleOptions :: addr
  color_dict :: addr
  min_v :: rat
  max_v :: rat

record 'c callback_context =
  hideout :: "'c hideout"

section \<open>function0: the style-mutating category colour resolver\<close>





section \<open>function1: the marker-constructing category variant\<close>

type_synonym latlng = "jsnum \<times> jsnum"

record marker =
  marker_latlng :: latlng
  marker_options :: obj

definition circleMarker :: "latlng \<Rightarrow> obj \<Rightarrow> marker" where
  \<comment> \<open>Modelled from the spec: \<^verbatim>\<open>L.circleMarker\<close> belongs to the map library, which is
      not part of the sources. The marker entity is "constructed fresh per point
      feature, configured with a copy of base circle options": it holds the location and
      the option values that the object passed to it has at the call.\<close>
  "circleMarker ll opts = \<lparr>marker_latlng = ll, marker_options = opts\<rparr>"

definition function1 :: "feature \<Rightarrow> latlng \<Rightarrow> 'c callback_context \<Rightarrow> heap \<Rightarrow> marker \<times> heap" where
  "function1 f ll ctx h =
     (let ho = hideout ctx;
          v = read_property f (colorProp ho);
          h' = set_prop h (circleOptions ho) ''fillColor''
                 (get_member (h (color_dict ho)) (to_string v))
      in (circleMarker ll (h' (circleOptions ho)), h'))"

section \<open>function2 and function3: the tooltip formatters\<close>

record layer =
  tooltip :: "string option"

definition bindTooltip :: "layer \<Rightarrow> string \<Rightarrow> layer" where
  \<comment> \<open>Modelled from the spec: \<^verbatim>\<open>layer.bindTooltip\<close> belongs to the map library, which is
      not part of the sources. It is the "side-effecting call on a caller-owned layer
      object" that attaches the text to the layer.\<close>
  "bindTooltip l text = l\<lparr>tooltip := Some text\<rparr>"

definition toFixed_call :: "scalar \<Rightarrow> nat \<Rightarrow> error + string" where
  \<comment> \<open>\<^verbatim>\<open>x.toFixed(f)\<close>: only a Number has the method; on \<^verbatim>\<open>undefined\<close> and
      \<^verbatim>\<open>null\<close> the property read throws, on a string or a boolean the call does\<close>
  "toFixed_call x f = (case x of Num n \<Rightarrow> Inr (toFixed n f) | _ \<Rightarrow> Inl TypeError)"

definition line_break :: string where
  \<comment> \<open>the line end and the indentation between two lines of the template literals\<close>
  "line_break = CHR 0x0A # replicate 16 CHR '' ''"

definition function2 :: "feature \<Rightarrow> layer \<Rightarrow> 'c callback_context \<Rightarrow> error + layer" where
  "function2 f l ctx =
     (case toFixed_call (read_property f ''mean_velocity'') 2 of
        Inl e \<Rightarrow> Inl e
      | Inr mv \<Rightarrow>
          (case toFixed_call (read_property f ''mp_label_prob'') 2 of
             Inl e \<Rightarrow> Inl e
           | Inr lp \<Rightarrow>
               Inr (bindTooltip l
                 (''PID: '' @ to_string (read_property f ''pid'') @ ''<br>'' @ line_break
                  @ ''Mean velocity: '' @ mv @ ''mm/yr<br>'' @ line_break
                  @ ''Label prob: '' @ lp @ ''<br>'' @ line_break
                  @ ''Trend class: '' @ to_string (read_property f ''trend_class'')
                  @ ''<br>'' @ line_break
                  @ ''Trend subclass: '' @ to_string (read_property f ''trend_subclass'')
                  @ ''<br>''))))"

definition function3 :: "feature \<Rightarrow> layer \<Rightarrow> 'c callback_context \<Rightarrow> error + layer" where
  "function3 f l ctx =
     (case toFixed_call (read_property f ''mean_velocity'') 2 of
        Inl e \<Rightarrow> Inl e
      | Inr mv \<Rightarrow>
          (let sp = toFixed (js_mul (to_number (read_property f ''stable_prop'')) (Fin 100)) 2
           in case toFixed_call (read_property f ''label_prob'') 2 of
                Inl e \<Rightarrow> Inl e
              | Inr lp \<Rightarrow>
                  Inr (bindTooltip l
                    (''N active MPs: '' @ to_string (read_property f ''n_ada_points'')
                     @ ''<br>'' @ line_break
                     @ ''Mean velocity: '' @ mv @ ''mm/yr<br>'' @ line_break
                     @ ''Stable prop: '' @ sp @ ''%<br>'' @ line_break
                     @ ''Avg. label prob: '' @ lp @ ''<br>'' @ line_break
                     @ ''ADA major class: '' @ to_string (read_property f ''ada_major_class'')
                     @ ''<br>'' @ line_break
                     @ ''ADA major subclass: ''
                     @ to_string (read_property f ''ada_major_subclass'') @ ''<br>''))))"

definition two_decimals :: "rat \<Rightarrow> string" where
  \<comment> \<open>the decimal numeral of the hundredth nearest to \<open>x\<close> (a half goes away from zero):
      sign, integer part, point, and exactly two digits\<close>
  "two_decimals x =
     (let n = \<lfloor>\<bar>x\<bar> * 100 + 1 / 2\<rfloor>
      in (if x < 0 then ''-'' else []) @ digits10 (n div 100) @ ''.''
         @ [digit_char (n div 10), digit_char n])"

section \<open>function4 and function5: the continuous colour resolvers\<close>

fun mix :: "color \<Rightarrow> color \<Rightarrow> rat \<Rightarrow> color" where
  "mix (RGB r g b) (RGB r' g' b') t = RGB (r + t * (r' - r)) (g + t * (g' - g)) (b + t * (b' - b))"
| "mix _ _ t = InvalidColor"

definition interpolate :: "color list \<Rightarrow> rat \<Rightarrow> color" where
  \<comment> \<open>the stops lie at equal distances on \<open>[0, 1]\<close>; \<open>0 \<le> t \<le> 1\<close>\<close>
  "interpolate stops t =
     (if length stops = 1 then stops ! 0
      else let p = t * of_nat (length stops - 1);
               i = min (nat \<lfloor>p\<rfloor>) (length stops - 2)
           in mix (stops ! i) (stops ! Suc i) (p - of_nat i))"

definition chroma_scale :: "color list \<Rightarrow> rat \<Rightarrow> rat \<Rightarrow> scalar \<Rightarrow> color" where
  \<comment> \<open>Modelled from the spec: \<^verbatim>\<open>chroma.scale(colorscale).domain([min, max])\<close> belongs to the
      colour library, which is not part of the sources. "Build a continuous color
      interpolation function over colorscale, linearly mapping the domain [min, max] onto
      it"; "values outside [min, max] clamp to the nearest domain endpoint's color"; "a
      missing or non-numeric property yields an implementation-defined (typically
      invalid/NaN) color". The stops are the colours they denote, the arithmetic is exact,
      and \<open>InvalidColor\<close> stands for every colour the spec leaves open (no stop, an empty
      domain, a value that is not a number).\<close>
  "chroma_scale stops lo hi v =
     (if stops = [] \<or> hi \<le> lo then InvalidColor
      else case v of
             Num (Fin x) \<Rightarrow> interpolate stops (min 1 (max 0 ((x - lo) / (hi - lo))))
           | Num PosInf \<Rightarrow> interpolate stops 1
           | Num NegInf \<Rightarrow> interpolate stops 0
           | _ \<Rightarrow> InvalidColor)"

definition function4 :: "feature \<Rightarrow> latlng \<Rightarrow> color callback_context \<Rightarrow> heap \<Rightarrow> marker \<times> heap" where
  "function4 f ll ctx h =
     (let ho = hideout ctx;
          csc = chroma_scale (colorscale ho) (min_v ho) (max_v ho);
          h' = set_prop h (circleOptions ho) ''fillColor''
                 (ColorVal (csc (read_property f (colorProp ho))))
      in (circleMarker ll (h' (circleOptions ho)), h'))"

definition function5 :: "feature \<Rightarrow> color callback_context \<Rightarrow> heap \<Rightarrow> addr \<times> heap" where
  "function5 f ctx h =
     (let ho = hideout ctx;
          csc = chroma_scale (colorscale ho) (min_v ho) (max_v ho)
      in (style ho, set_prop h (style ho) ''fillColor''
                      (ColorVal (csc (read_property f (colorProp ho))))))"

definition chan_between :: "rat \<Rightarrow> rat \<Rightarrow> rat \<Rightarrow> rat \<Rightarrow> bool" where
  \<comment> \<open>\<open>x\<close> and \<open>y\<close> lie between \<open>p\<close> and \<open>q\<close>, and from \<open>x\<close> to \<open>y\<close> the channel moves
      the way it moves from \<open>p\<close> to \<open>q\<close>\<close>
  "chan_between p q x y =
     (min p q \<le> x \<and> x \<le> max p q \<and> min p q \<le> y \<and> y \<le> max p q
      \<and> (if p \<le> q then x \<le> y else y \<le> x))"

fun monotone_between :: "color \<Rightarrow> color \<Rightarrow> color \<Rightarrow> color \<Rightarrow> bool" where
  "monotone_between (RGB r0 g0 b0) (RGB r1 g1 b1) (RGB r g b) (RGB r' g' b') =
     (chan_between r0 r1 r r' \<and> chan_between g0 g1 g g' \<and> chan_between b0 b1 b b')"
| "monotone_between _ _ _ _ = False"

fun is_rgb :: "color \<Rightarrow> bool" where
  "is_rgb (RGB r g b) = True"
| "is_rgb InvalidColor = False"

section \<open>Concrete inputs\<close>

definition empty_heap :: heap where
  "empty_heap = (\<lambda>a. Map.empty)"

definition class_feature :: "scalar \<Rightarrow> feature" where
  \<comment> \<open>a feature whose only property is \<^verbatim>\<open>trend_class\<close>\<close>
  "class_feature v = \<lparr>properties = [''trend_class'' \<mapsto> v]\<rparr>"

definition class_context :: "scalar list \<Rightarrow> 'c list \<Rightarrow> rat \<Rightarrow> rat \<Rightarrow> 'c callback_context" where
  \<comment> \<open>a hideout that colours by \<^verbatim>\<open>trend_class\<close>; \<^verbatim>\<open>style\<close>, \<^verbatim>\<open>circleOptions\<close> and
      \<^verbatim>\<open>color_dict\<close> are the objects at the addresses 0, 1 and 2\<close>
  "class_context cls cs lo hi =
     \<lparr>hideout = \<lparr>classes = cls, colorscale = cs, style = 0, colorProp = ''trend_class'',
        circleOptions = 1, color_dict = 2, min_v = lo, max_v = hi\<rparr>\<rparr>"


definition marker_heap :: heap where
  \<comment> \<open>base circle options at the address 1, the colour dictionary at the address 2\<close>
  "marker_heap = empty_heap
     (1 := [''radius'' \<mapsto> Prim (Num (Fin 5))],
      2 := [''X'' \<mapsto> Prim (Str ''#111''), ''Y'' \<mapsto> Prim (Str ''#222'')])"

definition point_feature :: feature where
  \<comment> \<open>the mean velocity is the Number that the literal \<^verbatim>\<open>3.456\<close> denotes\<close>
  "point_feature = \<lparr>properties =
     [''pid'' \<mapsto> Str ''10AbC'',
      ''mean_velocity'' \<mapsto> Num (Fin (7782220156096217 / 2251799813685248)),
      ''mp_label_prob'' \<mapsto> Num (Fin (7 / 8)),
      ''trend_class'' \<mapsto> Str ''Linear'',
      ''trend_subclass'' \<mapsto> Str ''Uplift'']\<rparr>"

definition aggregate_feature :: feature where
  "aggregate_feature = \<lparr>properties =
     [''n_ada_points'' \<mapsto> Num (Fin 12),
      ''mean_velocity'' \<mapsto> Num (Fin (- 5 / 4)),
      ''stable_prop'' \<mapsto> Num (Fin (1 / 2)),
      ''label_prob'' \<mapsto> Num (Fin (3 / 4)),
      ''ada_major_class'' \<mapsto> Str ''Linear'',
      ''ada_major_subclass'' \<mapsto> Str ''Subsidence'']\<rparr>"

definition fast_point_feature :: feature where
  \<comment> \<open>the mean velocity is the Number \<^verbatim>\<open>1e21\<close>\<close>
  "fast_point_feature = \<lparr>properties =
     [''pid'' \<mapsto> Str ''10AbC'',
      ''mean_velocity'' \<mapsto> Num (Fin (10 ^ 21)),
      ''mp_label_prob'' \<mapsto> Num (Fin (7 / 8)),
      ''trend_class'' \<mapsto> Str ''Linear'',
      ''trend_subclass'' \<mapsto> Str ''Uplift'']\<rparr>"

definition large_aggregate_feature :: feature where
  \<comment> \<open>the stable proportion is the Number \<^verbatim>\<open>1e20\<close>\<close>
  "large_aggregate_feature = \<lparr>properties =
     [''n_ada_points'' \<mapsto> Num (Fin 12),
      ''mean_velocity'' \<mapsto> Num (Fin (- 5 / 4)),
      ''stable_prop'' \<mapsto> Num (Fin (10 ^ 20)),
      ''label_prob'' \<mapsto> Num (Fin (3 / 4)),
      ''ada_major_class'' \<mapsto> Str ''Linear'',
      ''ada_major_subclass'' \<mapsto> Str ''Subsidence'']\<rparr>"

definition new_layer :: layer where
  "new_layer = \<lparr>tooltip = None\<rparr>"

section \<open>Properties of function0\<close>
















section \<open>Properties of function1 and function4\<close>

text \<open>
  C2, as the code has it. function1 and function4 assign the computed fill colour to the
  \<^verbatim>\<open>circleOptions\<close> object of the context itself: after the call that object has the new
  \<^verbatim>\<open>fillColor\<close> and its other fields as before, every other object is unchanged, and the
  marker is configured with the option values of that object after the assignment.
\<close>

theorem marker_functions_assign_in_place:
  "function1 f ll ctx h =
     (circleMarker ll ((h (circleOptions (hideout ctx)))(''fillColor'' \<mapsto>
          get_member (h (color_dict (hideout ctx)))
            (to_string (read_property f (colorProp (hideout ctx)))))),
      h(circleOptions (hideout ctx) := (h (circleOptions (hideout ctx)))(''fillColor'' \<mapsto>
          get_member (h (color_dict (hideout ctx)))
            (to_string (read_property f (colorProp (hideout ctx)))))))
   \<and> function4 g ll cctx h =
     (circleMarker ll ((h (circleOptions (hideout cctx)))(''fillColor'' \<mapsto>
          ColorVal (chroma_scale (colorscale (hideout cctx)) (min_v (hideout cctx))
            (max_v (hideout cctx)) (read_property g (colorProp (hideout cctx)))))),
      h(circleOptions (hideout cctx) := (h (circleOptions (hideout cctx)))(''fillColor'' \<mapsto>
          ColorVal (chroma_scale (colorscale (hideout cctx)) (min_v (hideout cctx))
            (max_v (hideout cctx)) (read_property g (colorProp (hideout cctx)))))))"
  by (simp add: function1_def function4_def set_prop_def Let_def)

text \<open>
  C2 as stated fails: the \<^verbatim>\<open>circleOptions\<close> object of the context (at the address 1)
  has no \<^verbatim>\<open>fillColor\<close> before function1 is called and has one after the call; the same
  holds for function4.
\<close>

theorem marker_functions_copy_counterexample:
  "marker_heap 1 ''fillColor'' = None
   \<and> snd (function1 (class_feature (Str ''Y'')) (Fin 0, Fin 0)
        (class_context [] ([] :: jsval list) 0 1) marker_heap) 1 ''fillColor''
       = Some (Prim (Str ''#222''))
   \<and> snd (function4 (class_feature (Num (Fin 0))) (Fin 0, Fin 0)
        (class_context [] [RGB 0 0 0, RGB 255 255 255] 0 1) marker_heap) 1 ''fillColor''
       = Some (ColorVal (RGB 0 0 0))"
  by code_simp

theorem marker_functions_assign_in_place_witness:
  "snd (function1 (class_feature (Str ''Y'')) (Fin 0, Fin 0)
        (class_context [] ([] :: jsval list) 0 1) marker_heap)
     = marker_heap(1 := [''radius'' \<mapsto> Prim (Num (Fin 5)), ''fillColor'' \<mapsto> Prim (Str ''#222'')])"
  using marker_functions_assign_in_place [of "class_feature (Str ''Y'')" "(Fin 0, Fin 0)"
      "class_context [] ([] :: jsval list) 0 1" marker_heap]
  by (simp add: class_feature_def class_context_def read_property_def marker_heap_def
      empty_heap_def get_member_def)




section \<open>Properties of the tooltip formatters\<close>

lemma digit_char_0: "digit_char 0 = CHR ''0''"
  by (simp add: digit_char_def)

lemma digits10_small: "n < 10 \<Longrightarrow> digits10 n = [digit_char n]"
  by (subst digits10.simps) simp

lemma digits10_step: "10 \<le> n \<Longrightarrow> digits10 n = digits10 (n div 10) @ [digit_char n]"
  by (subst digits10.simps) simp

lemma digits10_nonempty [simp]: "digits10 n \<noteq> []"
  by (subst digits10.simps) simp

lemma digits10_hundreds:
  assumes "100 \<le> n"
  shows "digits10 n = digits10 (n div 100) @ [digit_char (n div 10), digit_char n]"
proof -
  have "10 \<le> n div 10" using assms by simp
  moreover have "n div 10 div 10 = n div 100"
    by (simp add: div_mult2_eq [symmetric])
  ultimately show ?thesis
    using assms by (simp add: digits10_step [of n] digits10_step [of "n div 10"])
qed

lemma fixed_layout:
  assumes "0 \<le> n"
  shows "(let m = (if n = 0 then ''0'' else digits10 n);
              k = length m;
              m' = (if k \<le> 2 then replicate (2 + 1 - k) CHR ''0'' @ m else m);
              k' = (if k \<le> 2 then 2 + 1 else k)
          in take (k' - 2) m' @ ''.'' @ drop (k' - 2) m')
         = digits10 (n div 100) @ ''.'' @ [digit_char (n div 10), digit_char n]"
proof -
  consider "n = 0" | "0 < n" "n < 10" | "10 \<le> n" "n < 100" | "100 \<le> n"
    using assms by linarith
  then show ?thesis
  proof cases
    case 1
    then show ?thesis by (simp add: digits10_small digit_char_0)
  next
    case 2
    then show ?thesis by (simp add: digits10_small digit_char_0)
  next
    case 3
    then have "n div 10 < 10" "n div 100 = 0" by simp_all
    with 3 show ?thesis
      by (simp add: digits10_step [of n] digits10_small digit_char_0)
  next
    case 4
    then show ?thesis
      by (simp add: digits10_hundreds [of n])
  qed
qed

lemma toFixed_two_decimals:
  assumes "\<bar>q\<bar> < 10 ^ 21"
  shows "toFixed (Fin q) 2 = two_decimals q"
proof -
  have "0 \<le> \<lfloor>\<bar>q\<bar> * 100 + 1 / 2\<rfloor>" by simp
  from fixed_layout [OF this] assms show ?thesis
    by (simp add: toFixed_def two_decimals_def Let_def)
qed

lemma sublist_parts:
  fixes a b c d e :: "'a list"
  shows "sublist a (a @ s @ b @ s @ c @ s @ d @ s @ e)"
    and "sublist b (a @ s @ b @ s @ c @ s @ d @ s @ e)"
    and "sublist c (a @ s @ b @ s @ c @ s @ d @ s @ e)"
    and "sublist d (a @ s @ b @ s @ c @ s @ d @ s @ e)"
    and "sublist e (a @ s @ b @ s @ c @ s @ d @ s @ e)"
proof -
  show "sublist a (a @ s @ b @ s @ c @ s @ d @ s @ e)"
    by (rule sublist_append_rightI)
  show "sublist b (a @ s @ b @ s @ c @ s @ d @ s @ e)"
    using sublist_appendI [of b "a @ s" "s @ c @ s @ d @ s @ e"] by simp
  show "sublist c (a @ s @ b @ s @ c @ s @ d @ s @ e)"
    using sublist_appendI [of c "a @ s @ b @ s" "s @ d @ s @ e"] by simp
  show "sublist d (a @ s @ b @ s @ c @ s @ d @ s @ e)"
    using sublist_appendI [of d "a @ s @ b @ s @ c @ s" "s @ e"] by simp
  show "sublist e (a @ s @ b @ s @ c @ s @ d @ s @ e)"
    using sublist_append_leftI [of e "a @ s @ b @ s @ c @ s @ d @ s"] by simp
qed

text \<open>
  C8, as the code has it. For a point feature whose \<^verbatim>\<open>mean_velocity\<close> and
  \<^verbatim>\<open>mp_label_prob\<close> are finite Numbers of magnitude below \<open>10 ^ 21\<close>, function2 binds a
  tooltip text that contains the point identifier, the mean velocity with exactly two
  decimals (the nearest hundredth) followed by \<^verbatim>\<open>mm/yr\<close>, the label probability with
  exactly two decimals, the trend class and the trend subclass, each after its label. With
  the mean velocity \<^verbatim>\<open>3.456\<close> the text contains \<^verbatim>\<open>3.46mm/yr\<close>.
\<close>

theorem function2_tooltip:
  assumes "read_property f ''mean_velocity'' = Num (Fin q)" and "\<bar>q\<bar> < 10 ^ 21"
    and "read_property f ''mp_label_prob'' = Num (Fin p)" and "\<bar>p\<bar> < 10 ^ 21"
  shows "\<exists>text. function2 f l ctx = Inr (l\<lparr>tooltip := Some text\<rparr>)
           \<and> sublist (''PID: '' @ to_string (read_property f ''pid'') @ ''<br>'') text
           \<and> sublist (''Mean velocity: '' @ two_decimals q @ ''mm/yr<br>'') text
           \<and> sublist (''Label prob: '' @ two_decimals p @ ''<br>'') text
           \<and> sublist (''Trend class: '' @ to_string (read_property f ''trend_class'') @ ''<br>'') text
           \<and> sublist (''Trend subclass: '' @ to_string (read_property f ''trend_subclass'')
                @ ''<br>'') text"
proof -
  define pid where "pid = ''PID: '' @ to_string (read_property f ''pid'') @ ''<br>''"
  define vel where "vel = ''Mean velocity: '' @ two_decimals q @ ''mm/yr<br>''"
  define prob where "prob = ''Label prob: '' @ two_decimals p @ ''<br>''"
  define tc where "tc = ''Trend class: '' @ to_string (read_property f ''trend_class'') @ ''<br>''"
  define ts where
    "ts = ''Trend subclass: '' @ to_string (read_property f ''trend_subclass'') @ ''<br>''"
  define tip where
    "tip = pid @ line_break @ vel @ line_break @ prob @ line_break @ tc @ line_break @ ts"
  have fixed: "toFixed (Fin q) 2 = two_decimals q" "toFixed (Fin p) 2 = two_decimals p"
    using assms(2) assms(4) by (simp_all add: toFixed_two_decimals)
  have run: "function2 f l ctx = Inr (l\<lparr>tooltip := Some tip\<rparr>)"
    using assms(1) assms(3)
    by (simp add: function2_def toFixed_call_def bindTooltip_def tip_def pid_def vel_def
        prob_def tc_def ts_def fixed)
  have parts: "sublist pid tip" "sublist vel tip" "sublist prob tip" "sublist tc tip"
    "sublist ts tip"
    unfolding tip_def by (rule sublist_parts)+
  show ?thesis
    apply (rule exI [of _ tip])
    using run parts unfolding pid_def vel_def prob_def tc_def ts_def
    apply (intro conjI)
    apply assumption+
    done
qed

text \<open>
  C8 as stated fails: the mean velocity \<^verbatim>\<open>1e21\<close> is a numeric property, and for it the
  tooltip text shows \<^verbatim>\<open>1e+21mm/yr\<close>, which has no decimals; the two-decimal numeral
  of that velocity is not in the text.
\<close>

theorem function2_large_velocity_counterexample:
  "function2 fast_point_feature new_layer (class_context [] ([] :: jsval list) 0 1)
     = Inr \<lparr>tooltip = Some
         (''PID: 10AbC<br>'' @ line_break @ ''Mean velocity: 1e+21mm/yr<br>'' @ line_break
          @ ''Label prob: 0.88<br>'' @ line_break @ ''Trend class: Linear<br>'' @ line_break
          @ ''Trend subclass: Uplift<br>'')\<rparr>
   \<and> two_decimals (10 ^ 21) = ''1000000000000000000000.00''
   \<and> \<not> sublist (two_decimals (10 ^ 21) @ ''mm/yr'')
         (''PID: 10AbC<br>'' @ line_break @ ''Mean velocity: 1e+21mm/yr<br>'' @ line_break
          @ ''Label prob: 0.88<br>'' @ line_break @ ''Trend class: Linear<br>'' @ line_break
          @ ''Trend subclass: Uplift<br>'')"
  by code_simp

theorem function2_tooltip_witness:
  "string_to_number ''3.456'' = Fin (7782220156096217 / 2251799813685248)
   \<and> (\<exists>text. function2 point_feature new_layer (class_context [] ([] :: jsval list) 0 1)
                = Inr \<lparr>tooltip = Some text\<rparr>
              \<and> sublist ''3.46mm/yr'' text)"
proof -
  have num: "string_to_number ''3.456'' = Fin (7782220156096217 / 2251799813685248)"
    by code_simp
  have fixed: "two_decimals (7782220156096217 / 2251799813685248) = ''3.46''"
    by code_simp
  have "read_property point_feature ''mean_velocity''
          = Num (Fin (7782220156096217 / 2251799813685248))"
    and "\<bar>7782220156096217 / 2251799813685248 :: rat\<bar> < 10 ^ 21"
    and "read_property point_feature ''mp_label_prob'' = Num (Fin (7 / 8))"
    and "\<bar>7 / 8 :: rat\<bar> < 10 ^ 21"
    by (simp_all add: read_property_def point_feature_def)
  from function2_tooltip [OF this, of new_layer "class_context [] ([] :: jsval list) 0 1"]
  obtain tip where run: "function2 point_feature new_layer
        (class_context [] ([] :: jsval list) 0 1) = Inr (new_layer\<lparr>tooltip := Some tip\<rparr>)"
    and vel: "sublist (''Mean velocity: ''
        @ two_decimals (7782220156096217 / 2251799813685248) @ ''mm/yr<br>'') tip"
    by blast
  have "sublist ''3.46mm/yr'' (''Mean velocity: '' @ ''3.46mm/yr'' @ ''<br>'')"
    by (rule sublist_appendI)
  then have short: "sublist ''3.46mm/yr'' (''Mean velocity: '' @ ''3.46'' @ ''mm/yr<br>'')"
    by simp
  have "sublist ''3.46mm/yr'' tip"
    using short vel unfolding fixed by (rule sublist_order.order_trans)
  with run num show ?thesis
    by (auto simp: new_layer_def)
qed

text \<open>
  C9, as the code has it. For an aggregate feature whose \<^verbatim>\<open>mean_velocity\<close> and
  \<^verbatim>\<open>label_prob\<close> are Numbers and whose \<^verbatim>\<open>stable_prop\<close> is a finite Number, function3
  multiplies the stable proportion by 100 (the Number product); when that product is finite
  and of magnitude below \<open>10 ^ 21\<close>, the tooltip text shows it after the label
  \<^verbatim>\<open>Stable prop:\<close> with exactly two decimals (the nearest hundredth), followed by
  \<^verbatim>\<open>%\<close>. With the stable proportion \<^verbatim>\<open>0.5\<close> the text contains \<^verbatim>\<open>50.00%\<close>.
\<close>

theorem function3_tooltip:
  assumes "read_property f ''mean_velocity'' = Num mv"
    and "read_property f ''label_prob'' = Num lp"
    and "read_property f ''stable_prop'' = Num (Fin q)"
    and "round_double (q * 100) = Fin r" and "\<bar>r\<bar> < 10 ^ 21"
  shows "\<exists>text. function3 f l ctx = Inr (l\<lparr>tooltip := Some text\<rparr>)
           \<and> sublist (''Stable prop: '' @ two_decimals r @ ''%<br>'') text"
proof -
  define pre where
    "pre = ''N active MPs: '' @ to_string (read_property f ''n_ada_points'') @ ''<br>''
       @ line_break @ ''Mean velocity: '' @ toFixed mv 2 @ ''mm/yr<br>'' @ line_break"
  define stable where "stable = ''Stable prop: '' @ two_decimals r @ ''%<br>''"
  define post where
    "post = line_break @ ''Avg. label prob: '' @ toFixed lp 2 @ ''<br>'' @ line_break
       @ ''ADA major class: '' @ to_string (read_property f ''ada_major_class'') @ ''<br>''
       @ line_break @ ''ADA major subclass: ''
       @ to_string (read_property f ''ada_major_subclass'') @ ''<br>''"
  have fixed: "toFixed (round_double (q * 100)) 2 = two_decimals r"
    using assms(4) assms(5) by (simp add: toFixed_two_decimals)
  have run: "function3 f l ctx = Inr (l\<lparr>tooltip := Some (pre @ stable @ post)\<rparr>)"
    using assms(1-3)
    by (simp add: function3_def toFixed_call_def bindTooltip_def pre_def stable_def post_def
        fixed)
  have part: "sublist stable (pre @ stable @ post)"
    by (rule sublist_appendI)
  show ?thesis
    apply (rule exI [of _ "pre @ stable @ post"])
    using run part unfolding stable_def
    apply (intro conjI)
    apply assumption+
    done
qed

text \<open>
  C9 as stated fails: the stable proportion \<^verbatim>\<open>1e20\<close> is a numeric property, its product
  with 100 is \<^verbatim>\<open>1e22\<close>, and the tooltip text shows \<^verbatim>\<open>1e+22%\<close>, which has no
  decimals; the two-decimal numeral of the product is not in the text.
\<close>

theorem function3_large_proportion_counterexample:
  "function3 large_aggregate_feature new_layer (class_context [] ([] :: jsval list) 0 1)
     = Inr \<lparr>tooltip = Some
         (''N active MPs: 12<br>'' @ line_break @ ''Mean velocity: -1.25mm/yr<br>''
          @ line_break @ ''Stable prop: 1e+22%<br>'' @ line_break
          @ ''Avg. label prob: 0.75<br>'' @ line_break @ ''ADA major class: Linear<br>''
          @ line_break @ ''ADA major subclass: Subsidence<br>'')\<rparr>
   \<and> two_decimals (10 ^ 20 * 100) = ''10000000000000000000000.00''
   \<and> \<not> sublist (two_decimals (10 ^ 20 * 100) @ ''%'')
         (''N active MPs: 12<br>'' @ line_break @ ''Mean velocity: -1.25mm/yr<br>''
          @ line_break @ ''Stable prop: 1e+22%<br>'' @ line_break
          @ ''Avg. label prob: 0.75<br>'' @ line_break @ ''ADA major class: Linear<br>''
          @ line_break @ ''ADA major subclass: Subsidence<br>'')"
  by code_simp

theorem function3_tooltip_witness:
  "\<exists>text. function3 aggregate_feature new_layer (class_context [] ([] :: jsval list) 0 1)
             = Inr \<lparr>tooltip = Some text\<rparr>
           \<and> sublist ''50.00%'' text"
proof -
  have fixed: "two_decimals 50 = ''50.00''"
    by code_simp
  have "read_property aggregate_feature ''mean_velocity'' = Num (Fin (- 5 / 4))"
    and "read_property aggregate_feature ''label_prob'' = Num (Fin (3 / 4))"
    and "read_property aggregate_feature ''stable_prop'' = Num (Fin (1 / 2))"
    by (simp_all add: read_property_def aggregate_feature_def)
  moreover have "round_double (1 / 2 * 100) = Fin 50"
    by code_simp
  moreover have "\<bar>50 :: rat\<bar> < 10 ^ 21"
    by simp
  ultimately obtain tip where run: "function3 aggregate_feature new_layer
        (class_context [] ([] :: jsval list) 0 1) = Inr (new_layer\<lparr>tooltip := Some tip\<rparr>)"
    and stable: "sublist (''Stable prop: '' @ two_decimals 50 @ ''%<br>'') tip"
    using function3_tooltip [of aggregate_feature "Fin (- 5 / 4)" "Fin (3 / 4)" "1 / 2" 50
        new_layer "class_context [] ([] :: jsval list) 0 1"]
    by blast
  have "sublist ''50.00%'' (''Stable prop: '' @ ''50.00%'' @ ''<br>'')"
    by (rule sublist_appendI)
  then have short: "sublist ''50.00%'' (''Stable prop: '' @ ''50.00'' @ ''%<br>'')"
    by simp
  have "sublist ''50.00%'' tip"
    using short stable unfolding fixed by (rule sublist_order.order_trans)
  with run show ?thesis
    by (auto simp: new_layer_def)
qed

section \<open>Properties of the continuous colour resolvers\<close>

lemma chroma_scale_below:
  assumes "v < lo"
  shows "chroma_scale stops lo hi (Num (Fin v)) = chroma_scale stops lo hi (Num (Fin lo))"
proof (cases "stops = [] \<or> hi \<le> lo")
  case True
  then show ?thesis by (simp add: chroma_scale_def)
next
  case False
  then have "(v - lo) / (hi - lo) \<le> 0"
    using assms by (simp add: divide_nonpos_pos)
  then show ?thesis
    using False by (simp add: chroma_scale_def max_def)
qed

lemma chroma_scale_above:
  assumes "hi < v"
  shows "chroma_scale stops lo hi (Num (Fin v)) = chroma_scale stops lo hi (Num (Fin hi))"
proof (cases "stops = [] \<or> hi \<le> lo")
  case True
  then show ?thesis by (simp add: chroma_scale_def)
next
  case False
  then have "1 \<le> (v - lo) / (hi - lo)"
    using assms by (simp add: le_divide_eq)
  then show ?thesis
    using False by (simp add: chroma_scale_def min_def max_def)
qed

lemma interpolate_first:
  assumes "stops \<noteq> []" and "list_all is_rgb stops"
  shows "interpolate stops 0 = hd stops"
proof (cases "length stops = 1")
  case True
  then show ?thesis
    using assms(1) by (simp add: interpolate_def hd_conv_nth)
next
  case False
  moreover have "length stops \<noteq> 0"
    using assms(1) by simp
  ultimately have len: "2 \<le> length stops"
    by arith
  then have "0 < length stops" "Suc 0 < length stops"
    by arith+
  then have "is_rgb (stops ! 0)" "is_rgb (stops ! Suc 0)"
    using assms(2) by (simp_all add: list_all_length)
  then obtain r g b r' g' b' where "stops ! 0 = RGB r g b" "stops ! Suc 0 = RGB r' g' b'"
    by (metis is_rgb.elims(2))
  then show ?thesis
    using False assms(1) by (simp add: interpolate_def hd_conv_nth)
qed

lemma interpolate_last:
  assumes "stops \<noteq> []" and "list_all is_rgb stops"
  shows "interpolate stops 1 = last stops"
proof (cases "length stops = 1")
  case True
  then show ?thesis
    using assms(1) by (simp add: interpolate_def last_conv_nth)
next
  case False
  moreover have "length stops \<noteq> 0"
    using assms(1) by simp
  ultimately have len: "2 \<le> length stops"
    by arith
  define n where "n = length stops - 2"
  have n: "length stops = n + 2"
    using len by (simp add: n_def)
  have "is_rgb (stops ! n)" "is_rgb (stops ! Suc n)"
    using assms(2) n by (simp_all add: list_all_length)
  then obtain r g b r' g' b' where "stops ! n = RGB r g b" "stops ! Suc n = RGB r' g' b'"
    by (metis is_rgb.elims(2))
  then show ?thesis
    using assms(1) by (simp add: interpolate_def last_conv_nth n)
qed

lemma chroma_scale_at_min:
  assumes "stops \<noteq> []" and "lo < hi"
  shows "chroma_scale stops lo hi (Num (Fin lo)) = interpolate stops 0"
  using assms by (simp add: chroma_scale_def)

lemma chroma_scale_at_max:
  assumes "stops \<noteq> []" and "lo < hi"
  shows "chroma_scale stops lo hi (Num (Fin hi)) = interpolate stops 1"
  using assms by (simp add: chroma_scale_def)

text \<open>
  C6. With at least one colour stop and \<^verbatim>\<open>min < max\<close>: for a value below \<^verbatim>\<open>min\<close>,
  function5 assigns to the fill colour of the style object, and function4 to the fill
  colour of the circle options and of the marker, the colour that the scale has at
  \<^verbatim>\<open>min\<close>, which is what they produce for the value \<^verbatim>\<open>min\<close> itself; for a value above
  \<^verbatim>\<open>max\<close> they assign the colour that the scale has at \<^verbatim>\<open>max\<close>. The colour at
  \<^verbatim>\<open>min\<close> is the first stop and the colour at \<^verbatim>\<open>max\<close> is the last stop.
\<close>

theorem continuous_resolvers_clamp:
  assumes "colorscale (hideout ctx) \<noteq> []"
    and "min_v (hideout ctx) < max_v (hideout ctx)"
    and "read_property f (colorProp (hideout ctx)) = Num (Fin v)"
    and "read_property f_min (colorProp (hideout ctx)) = Num (Fin (min_v (hideout ctx)))"
    and "read_property f_max (colorProp (hideout ctx)) = Num (Fin (max_v (hideout ctx)))"
    and "c_min = chroma_scale (colorscale (hideout ctx)) (min_v (hideout ctx))
           (max_v (hideout ctx)) (Num (Fin (min_v (hideout ctx))))"
    and "c_max = chroma_scale (colorscale (hideout ctx)) (min_v (hideout ctx))
           (max_v (hideout ctx)) (Num (Fin (max_v (hideout ctx))))"
  shows "(v < min_v (hideout ctx) \<longrightarrow>
            function5 f ctx h
              = (style (hideout ctx),
                 set_prop h (style (hideout ctx)) ''fillColor'' (ColorVal c_min))
            \<and> function4 f ll ctx h
              = (circleMarker ll
                   ((h (circleOptions (hideout ctx)))(''fillColor'' \<mapsto> ColorVal c_min)),
                 set_prop h (circleOptions (hideout ctx)) ''fillColor'' (ColorVal c_min))
            \<and> function5 f ctx h = function5 f_min ctx h
            \<and> function4 f ll ctx h = function4 f_min ll ctx h)
         \<and> (max_v (hideout ctx) < v \<longrightarrow>
            function5 f ctx h
              = (style (hideout ctx),
                 set_prop h (style (hideout ctx)) ''fillColor'' (ColorVal c_max))
            \<and> function4 f ll ctx h
              = (circleMarker ll
                   ((h (circleOptions (hideout ctx)))(''fillColor'' \<mapsto> ColorVal c_max)),
                 set_prop h (circleOptions (hideout ctx)) ''fillColor'' (ColorVal c_max))
            \<and> function5 f ctx h = function5 f_max ctx h
            \<and> function4 f ll ctx h = function4 f_max ll ctx h)
         \<and> (list_all is_rgb (colorscale (hideout ctx)) \<longrightarrow>
            c_min = hd (colorscale (hideout ctx)) \<and> c_max = last (colorscale (hideout ctx)))"
proof -
  have ends: "list_all is_rgb (colorscale (hideout ctx)) \<longrightarrow>
      c_min = hd (colorscale (hideout ctx)) \<and> c_max = last (colorscale (hideout ctx))"
    using assms(1) assms(2)
    by (simp add: assms(6) assms(7) chroma_scale_at_min chroma_scale_at_max
        interpolate_first interpolate_last)
  have below: "v < min_v (hideout ctx) \<longrightarrow>
      chroma_scale (colorscale (hideout ctx)) (min_v (hideout ctx)) (max_v (hideout ctx))
        (Num (Fin v)) = c_min"
    by (simp add: assms(6) chroma_scale_below)
  have above: "max_v (hideout ctx) < v \<longrightarrow>
      chroma_scale (colorscale (hideout ctx)) (min_v (hideout ctx)) (max_v (hideout ctx))
        (Num (Fin v)) = c_max"
    by (simp add: assms(7) chroma_scale_above)
  show ?thesis
    using ends below above assms(3-5)
    by (simp add: function5_def function4_def Let_def set_prop_def assms(6) assms(7))
qed

theorem continuous_resolvers_clamp_witness:
  "snd (function5 (class_feature (Num (Fin (- 1))))
       (class_context [] [RGB 0 0 0, RGB 255 255 255] 0 10) empty_heap) 0 ''fillColor''
     = Some (ColorVal (RGB 0 0 0))
   \<and> snd (function5 (class_feature (Num (Fin 11)))
       (class_context [] [RGB 0 0 0, RGB 255 255 255] 0 10) empty_heap) 0 ''fillColor''
     = Some (ColorVal (RGB 255 255 255))"
proof -
  define ctx :: "color callback_context" where
    "ctx = class_context [] [RGB 0 0 0, RGB 255 255 255] 0 10"
  have ho: "colorscale (hideout ctx) = [RGB 0 0 0, RGB 255 255 255]"
    "min_v (hideout ctx) = 0" "max_v (hideout ctx) = 10"
    "colorProp (hideout ctx) = ''trend_class''" "style (hideout ctx) = 0"
    by (simp_all add: ctx_def class_context_def)
  have rd: "\<And>x. read_property (class_feature x) ''trend_class'' = x"
    by (simp add: class_feature_def read_property_def)
  from continuous_resolvers_clamp [of ctx "class_feature (Num (Fin (- 1)))" "- 1"
      "class_feature (Num (Fin 0))" "class_feature (Num (Fin 10))" _ _ empty_heap "(Fin 0, Fin 0)",
      OF _ _ _ _ _ refl refl]
  have lo: "function5 (class_feature (Num (Fin (- 1)))) ctx empty_heap
      = (0, set_prop empty_heap 0 ''fillColor'' (ColorVal (RGB 0 0 0)))"
    by (simp add: ho rd)
  from continuous_resolvers_clamp [of ctx "class_feature (Num (Fin 11))" 11
      "class_feature (Num (Fin 0))" "class_feature (Num (Fin 10))" _ _ empty_heap "(Fin 0, Fin 0)",
      OF _ _ _ _ _ refl refl]
  have hi: "function5 (class_feature (Num (Fin 11))) ctx empty_heap
      = (0, set_prop empty_heap 0 ''fillColor'' (ColorVal (RGB 255 255 255)))"
    by (simp add: ho rd)
  show ?thesis
    using lo hi by (simp add: ctx_def [symmetric] set_prop_def)
qed

lemma lerp_between:
  fixes p q t t' :: rat
  assumes "0 \<le> t" and "t \<le> t'" and "t' \<le> 1"
  shows "chan_between p q (p + t * (q - p)) (p + t' * (q - p))"
proof -
  define a where "a = t * (q - p)"
  define b where "b = t' * (q - p)"
  have "chan_between p q (p + a) (p + b)"
  proof (cases "p \<le> q")
    case True
    then have d: "0 \<le> q - p" by simp
    have "a \<le> b"
      unfolding a_def b_def using assms(2) d by (rule mult_right_mono)
    moreover have "b \<le> 1 * (q - p)"
      unfolding b_def using assms(3) d by (rule mult_right_mono)
    moreover have "0 \<le> a"
      unfolding a_def using assms(1) d by (rule mult_nonneg_nonneg)
    ultimately show ?thesis
      using True unfolding chan_between_def min_def max_def by auto
  next
    case False
    then have d: "q - p \<le> 0" by simp
    have "b \<le> a"
      unfolding a_def b_def using assms(2) d by (rule mult_right_mono_neg)
    moreover have "1 * (q - p) \<le> b"
      unfolding b_def using assms(3) d by (rule mult_right_mono_neg)
    moreover have "a \<le> 0"
      unfolding a_def using assms(1) d by (rule mult_nonneg_nonpos)
    ultimately show ?thesis
      using False unfolding chan_between_def min_def max_def by auto
  qed
  then show ?thesis
    unfolding a_def b_def .
qed

lemma chroma_scale_two_stops:
  assumes "lo < hi" and "lo \<le> v" and "v \<le> hi"
  shows "chroma_scale [RGB r0 g0 b0, RGB r1 g1 b1] lo hi (Num (Fin v))
         = RGB (r0 + (v - lo) / (hi - lo) * (r1 - r0)) (g0 + (v - lo) / (hi - lo) * (g1 - g0))
               (b0 + (v - lo) / (hi - lo) * (b1 - b0))"
proof -
  have "0 \<le> (v - lo) / (hi - lo)" "(v - lo) / (hi - lo) \<le> 1"
    using assms by (simp_all add: divide_le_eq)
  then show ?thesis
    using assms(1) by (simp add: chroma_scale_def interpolate_def min_def max_def)
qed

text \<open>
  C7. With two colour stops and \<^verbatim>\<open>min < max\<close>, the colours that function5 assigns for
  two values \<open>v \<le> w\<close> of the domain lie between the two stops in every channel, and from
  \<open>v\<close> to \<open>w\<close> every channel moves the way it moves from the first stop to the second
  (never back); at \<^verbatim>\<open>min\<close> the colour is the first stop and at \<^verbatim>\<open>max\<close> the second.
\<close>

theorem function5_two_stops:
  assumes "colorscale (hideout ctx) = [RGB r0 g0 b0, RGB r1 g1 b1]"
    and "min_v (hideout ctx) < max_v (hideout ctx)"
    and "min_v (hideout ctx) \<le> v" and "v \<le> w" and "w \<le> max_v (hideout ctx)"
    and "read_property f (colorProp (hideout ctx)) = Num (Fin v)"
    and "read_property g (colorProp (hideout ctx)) = Num (Fin w)"
  shows "\<exists>cv cw. function5 f ctx h
               = (style (hideout ctx), set_prop h (style (hideout ctx)) ''fillColor'' (ColorVal cv))
           \<and> function5 g ctx h
               = (style (hideout ctx), set_prop h (style (hideout ctx)) ''fillColor'' (ColorVal cw))
           \<and> monotone_between (RGB r0 g0 b0) (RGB r1 g1 b1) cv cw
           \<and> (v = min_v (hideout ctx) \<longrightarrow> cv = RGB r0 g0 b0)
           \<and> (w = max_v (hideout ctx) \<longrightarrow> cw = RGB r1 g1 b1)"
proof -
  let ?lo = "min_v (hideout ctx)" and ?hi = "max_v (hideout ctx)"
  let ?t = "(v - ?lo) / (?hi - ?lo)" and ?t' = "(w - ?lo) / (?hi - ?lo)"
  have t: "0 \<le> ?t" "?t \<le> ?t'" "?t' \<le> 1"
    using assms(2-5) by (simp_all add: divide_le_eq divide_right_mono)
  have cv: "chroma_scale (colorscale (hideout ctx)) ?lo ?hi (Num (Fin v))
      = RGB (r0 + ?t * (r1 - r0)) (g0 + ?t * (g1 - g0)) (b0 + ?t * (b1 - b0))"
    using assms(2-5) by (simp add: assms(1) chroma_scale_two_stops)
  have cw: "chroma_scale (colorscale (hideout ctx)) ?lo ?hi (Num (Fin w))
      = RGB (r0 + ?t' * (r1 - r0)) (g0 + ?t' * (g1 - g0)) (b0 + ?t' * (b1 - b0))"
    using assms(2-5) by (simp add: assms(1) chroma_scale_two_stops)
  have mono: "monotone_between (RGB r0 g0 b0) (RGB r1 g1 b1)
      (RGB (r0 + ?t * (r1 - r0)) (g0 + ?t * (g1 - g0)) (b0 + ?t * (b1 - b0)))
      (RGB (r0 + ?t' * (r1 - r0)) (g0 + ?t' * (g1 - g0)) (b0 + ?t' * (b1 - b0)))"
    unfolding monotone_between.simps by (intro conjI lerp_between t)
  have ends: "v = ?lo \<longrightarrow> ?t = 0" "w = ?hi \<longrightarrow> ?t' = 1"
    using assms(2) by simp_all
  show ?thesis
    apply (rule exI [of _ "RGB (r0 + ?t * (r1 - r0)) (g0 + ?t * (g1 - g0)) (b0 + ?t * (b1 - b0))"])
    apply (rule exI [of _ "RGB (r0 + ?t' * (r1 - r0)) (g0 + ?t' * (g1 - g0)) (b0 + ?t' * (b1 - b0))"])
    using mono ends
    apply (simp add: function5_def Let_def assms(6) assms(7) cv cw)
    done
qed


theorem function5_two_stops_witness:
  "snd (function5 (class_feature (Num (Fin 0)))
       (class_context [] [RGB 0 0 0, RGB 255 255 255] 0 10) empty_heap) 0 ''fillColor''
     = Some (ColorVal (RGB 0 0 0))
   \<and> snd (function5 (class_feature (Num (Fin 10)))
       (class_context [] [RGB 0 0 0, RGB 255 255 255] 0 10) empty_heap) 0 ''fillColor''
     = Some (ColorVal (RGB 255 255 255))"
proof -
  from function5_two_stops [of "class_context [] [RGB 0 0 0, RGB 255 255 255] 0 10"
      0 0 0 255 255 255 0 10 "class_feature (Num (Fin 0))" "class_feature (Num (Fin 10))"
      empty_heap]
  obtain cv cw where
    "function5 (class_feature (Num (Fin 0)))
       (class_context [] [RGB 0 0 0, RGB 255 255 255] 0 10) empty_heap
     = (0, set_prop empty_heap 0 ''fillColor'' (ColorVal cv))"
    and "function5 (class_feature (Num (Fin 10)))
       (class_context [] [RGB 0 0 0, RGB 255 255 255] 0 10) empty_heap
     = (0, set_prop empty_heap 0 ''fillColor'' (ColorVal cw))"
    and "cv = RGB 0 0 0" and "cw = RGB 255 255 255"
    by (auto simp: class_feature_def class_context_def read_property_def)
  then show ?thesis
    by (simp add: set_prop_def)
qed

end
